theory Spec2Isabelle
  imports Main "HOL-Library.Sublist"
begin

section \<open>maya\_stubgen/utils.py: the data model\<close>

text \<open>
  The module is a handful of procedures over three resources: the local filesystem, the
  embedded Maya runtime (an optional import) and the process-wide logger. Each procedure
  becomes a function from the state of the process and its surroundings (a \<open>world\<close>) to
  a result and the new state; a raised exception is the result \<open>Inl e\<close>.
\<close>

subsection \<open>Exceptions\<close>

datatype exn =
    ModuleNotFoundError
  | FileNotFoundError
  | NotADirectoryError
  | IsADirectoryError
  | FileExistsError
  | RuntimeError
  | IndexError
  | Raised string

subsection \<open>The filesystem\<close>

text \<open>
  A path is the list of its components below the root; the filesystem maps a path to the
  node stored there. Symbolic links, permissions and I/O failures are not modelled: an
  operation fails only for the reasons the tree itself gives (a missing entry, a file where
  a directory is needed, a directory where a file is needed).
\<close>

type_synonym path = "string list"

datatype node = File string | Dir

type_synonym filesystem = "path \<Rightarrow> node option"

definition ancestors :: "path \<Rightarrow> path list" where
  "ancestors p = butlast (prefixes p)"

text \<open>
  Resolving the directory part of a path: every proper ancestor, from the root down, has to
  be a directory. The result is the error of the first ancestor that is not.
\<close>

definition walk :: "filesystem \<Rightarrow> path \<Rightarrow> exn option" where
  "walk f p =
     (case find (\<lambda>q. f q \<noteq> Some Dir) (ancestors p) of
        None \<Rightarrow> None
      | Some q \<Rightarrow> (case f q of None \<Rightarrow> Some FileNotFoundError | Some n \<Rightarrow> Some NotADirectoryError))"

definition stat :: "filesystem \<Rightarrow> path \<Rightarrow> exn + node" where
  "stat f p =
     (case walk f p of
        Some e \<Rightarrow> Inl e
      | None \<Rightarrow> (case f p of None \<Rightarrow> Inl FileNotFoundError | Some n \<Rightarrow> Inr n))"

text \<open>\<^verbatim>\<open>Path.exists()\<close>: false when \<^verbatim>\<open>stat\<close> fails with ENOENT or ENOTDIR.\<close>

definition path_exists :: "filesystem \<Rightarrow> path \<Rightarrow> bool" where
  "path_exists f p = (case stat f p of Inl e \<Rightarrow> False | Inr n \<Rightarrow> True)"

definition is_dir :: "filesystem \<Rightarrow> path \<Rightarrow> bool" where
  "is_dir f p = (stat f p = Inr Dir)"

text \<open>\<^verbatim>\<open>Path.read_text()\<close>\<close>

definition read_text :: "filesystem \<Rightarrow> path \<Rightarrow> exn + string" where
  "read_text f p =
     (case stat f p of
        Inl e \<Rightarrow> Inl e
      | Inr Dir \<Rightarrow> Inl IsADirectoryError
      | Inr (File c) \<Rightarrow> Inr c)"

text \<open>\<^verbatim>\<open>Path.write_text(data)\<close>: creates the file or replaces its contents.\<close>

definition write_text :: "filesystem \<Rightarrow> path \<Rightarrow> string \<Rightarrow> exn + filesystem" where
  "write_text f p c =
     (case walk f p of
        Some e \<Rightarrow> Inl e
      | None \<Rightarrow> (case f p of Some Dir \<Rightarrow> Inl IsADirectoryError | _ \<Rightarrow> Inr (f(p \<mapsto> File c))))"

text \<open>
  \<^verbatim>\<open>shutil.rmtree(path)\<close>: removes the directory and everything below it; raises when the
  path is missing or is not a directory.
\<close>

definition rmtree :: "filesystem \<Rightarrow> path \<Rightarrow> exn + filesystem" where
  "rmtree f p =
     (case stat f p of
        Inl e \<Rightarrow> Inl e
      | Inr (File c) \<Rightarrow> Inl NotADirectoryError
      | Inr Dir \<Rightarrow> Inr (\<lambda>q. if prefix p q then None else f q))"

text \<open>\<^verbatim>\<open>shutil.rmtree(path, ignore_errors=True)\<close>: a failure leaves the tree as it is.\<close>

definition rmtree_ignore_errors :: "filesystem \<Rightarrow> path \<Rightarrow> filesystem" where
  "rmtree_ignore_errors f p = (case rmtree f p of Inl e \<Rightarrow> f | Inr f' \<Rightarrow> f')"

fun is_file :: "node option \<Rightarrow> bool" where
  "is_file (Some (File c)) = True"
| "is_file n = False"

text \<open>
  \<^verbatim>\<open>Path.mkdir(parents=True, exist_ok=True)\<close>: creates the directory and every missing
  ancestor; an existing directory is accepted, a file on the way is an error.
\<close>

definition mkdir_parents_exist_ok :: "filesystem \<Rightarrow> path \<Rightarrow> exn + filesystem" where
  "mkdir_parents_exist_ok f p =
     (case find (\<lambda>q. is_file (f q)) (prefixes p) of
        Some q \<Rightarrow> Inl (if q = p then FileExistsError else NotADirectoryError)
      | None \<Rightarrow> Inr (\<lambda>q. if prefix q p \<and> f q = None then Some Dir else f q))"

subsection \<open>Text\<close>

text \<open>
  \<^verbatim>\<open>str.isspace\<close> on the code points below 256, and \<^verbatim>\<open>str.strip()\<close>, which removes
  leading and trailing whitespace. Text is a list of 8-bit characters.
\<close>

definition isspace :: "char \<Rightarrow> bool" where
  "isspace c =
     (let n = (of_char c :: nat)
      in (9 \<le> n \<and> n \<le> 13) \<or> (28 \<le> n \<and> n \<le> 32) \<or> n = 133 \<or> n = 160)"

definition strip :: "string \<Rightarrow> string" where
  "strip t = rev (dropWhile isspace (rev (dropWhile isspace t)))"

subsection \<open>The logger and the calls into the host\<close>

datatype level = Info | Warning | Error | Success

datatype log_arg = Str string | Seconds int

type_synonym log_line = "level \<times> string \<times> log_arg list"

datatype host_call =
    SetAttribute_AA_ShareOpenGLContexts
  | QApplication
  | Standalone_initialize
  | Standalone_uninitialize
  | LoadPlugin string
  | About_majorVersion

subsection \<open>The process and its surroundings\<close>

text \<open>
  The surroundings are fixed during a run: whether \<^verbatim>\<open>import maya\<close> succeeds
  (\<^verbatim>\<open>_has_maya\<close>), how each call into the host ends, what the host answers to its
  \<open>k\<close>-th version query, which handlers its start-up installs on the root logger, and what
  the \<open>k\<close>-th reading of \<^verbatim>\<open>time.perf_counter()\<close> is (in clock ticks). An import of a
  submodule of \<^verbatim>\<open>maya\<close> inside a \<^verbatim>\<open>try\<close> block is part of the call it precedes: either
  failing takes the same \<^verbatim>\<open>except\<close> branch.
\<close>

record environment =
  has_maya :: bool
  qapplication_ok :: bool
  standalone_initialize_ok :: bool
  standalone_uninitialize_ok :: bool
  loadPlugin_ok :: "string \<Rightarrow> bool"
  about_majorVersion :: "nat \<Rightarrow> string"
  maya_handlers :: "string list"
  perf_counter :: "nat \<Rightarrow> int"

text \<open>
  The state: the resolved working directory, the filesystem, the module global
  \<^verbatim>\<open>_maya_version\<close>, the lines logged so far, the handlers of the root logger, the calls
  made into the host so far, and the number of clock readings taken.
\<close>

record world =
  cwd :: path
  fs :: filesystem
  maya_version_global :: "string option"
  logged :: "log_line list"
  root_handlers :: "string list"
  host_calls :: "host_call list"
  clock_reads :: nat

type_synonym 'a action = "world \<Rightarrow> (exn + 'a) \<times> world"

text \<open>Sequencing: an exception of the first action ends the whole.\<close>

definition seq :: "'a action \<Rightarrow> ('a \<Rightarrow> 'b action) \<Rightarrow> 'b action" where
  "seq m k s = (case m s of (Inl e, s') \<Rightarrow> (Inl e, s') | (Inr v, s') \<Rightarrow> k v s')"

definition return :: "'a \<Rightarrow> 'a action" where
  "return v s = (Inr v, s)"

definition raise :: "exn \<Rightarrow> 'a action" where
  "raise e s = (Inl e, s)"

definition logger :: "level \<Rightarrow> string \<Rightarrow> log_arg list \<Rightarrow> world \<Rightarrow> world" where
  "logger l msg args s = s\<lparr>logged := logged s @ [(l, msg, args)]\<rparr>"

definition call_host :: "host_call \<Rightarrow> world \<Rightarrow> world" where
  "call_host c s = s\<lparr>host_calls := host_calls s @ [c]\<rparr>"

definition about_count :: "world \<Rightarrow> nat" where
  "about_count s = count_list (host_calls s) About_majorVersion"

text \<open>A filesystem operation as an action on the world.\<close>

definition on_fs :: "(filesystem \<Rightarrow> exn + filesystem) \<Rightarrow> unit action" where
  "on_fs op s = (case op (fs s) of Inl e \<Rightarrow> (Inl e, s) | Inr f \<Rightarrow> (Inr (), s\<lparr>fs := f\<rparr>))"

section \<open>The procedures\<close>

subsection \<open>Host runtime lifecycle\<close>

definition PLUGINS :: "string list" where
  "PLUGINS = [''invertShape.mll'', ''poseInterpolator.mll'']"

text \<open>The loop of \<^verbatim>\<open>initialize_maya\<close> over the plugins: a failed load is logged and skipped.\<close>

fun load_plugins :: "environment \<Rightarrow> string list \<Rightarrow> world \<Rightarrow> world" where
  "load_plugins h [] s = s"
| "load_plugins h (plugin # rest) s =
     (let s1 = call_host (LoadPlugin plugin) s;
          s2 = (if loadPlugin_ok h plugin then s1
                else logger Warning ''Couldn't load %s'' [Str plugin] s1)
      in load_plugins h rest s2)"

text \<open>
  \<^verbatim>\<open>initialize_maya\<close>. The construction of the \<^verbatim>\<open>QApplication\<close> stands outside the
  \<^verbatim>\<open>try\<close> block, and so does \<^verbatim>\<open>handlers.pop()\<close>, which raises on an empty list.
\<close>

definition initialize_maya :: "environment \<Rightarrow> unit action" where
  "initialize_maya h s =
     (if \<not> has_maya h then (Inr (), s)
      else
        let s1 = logger Info ''Initializing Maya Standalone'' [] s;
            s2 = call_host SetAttribute_AA_ShareOpenGLContexts s1;
            s3 = call_host QApplication s2
        in if \<not> qapplication_ok h then (Inl RuntimeError, s3)
           else
             let s4 = call_host Standalone_initialize s3
             in if \<not> standalone_initialize_ok h
                then (Inr (), logger Error ''Failed to initialize Maya Standalone'' [] s4)
                else
                  let s5 = s4\<lparr>root_handlers := root_handlers s4 @ maya_handlers h\<rparr>;
                      s6 = load_plugins h PLUGINS s5
                  in (case root_handlers s6 of
                        [] \<Rightarrow> (Inl IndexError, s6)
                      | x # xs \<Rightarrow>
                          (Inr (), logger Success ''Maya Standalone Initialized'' []
                             (s6\<lparr>root_handlers := butlast (x # xs)\<rparr>))))"

text \<open>
  \<^verbatim>\<open>uninitialize_maya\<close>: the \<^verbatim>\<open>finally\<close> block runs after either branch of the
  \<^verbatim>\<open>try\<close>; \<^verbatim>\<open>Path() / "temp" / "maya_app_dir"\<close> is relative to the working directory.
\<close>

definition uninitialize_maya :: "environment \<Rightarrow> unit action" where
  "uninitialize_maya h s =
     (if \<not> has_maya h then (Inr (), s)
      else
        let s1 = logger Info ''Uninitializing Maya Standalone'' [] s;
            s2 = call_host Standalone_uninitialize s1;
            s3 = (if standalone_uninitialize_ok h
                  then logger Success ''Maya Standalone Uninitialized'' [] s2
                  else logger Error ''Failed to uninitialize Maya Standalone'' [] s2);
            temp_maya_app_dir = cwd s3 @ [''temp'', ''maya_app_dir'']
        in (Inr (), s3\<lparr>fs := rmtree_ignore_errors (fs s3) temp_maya_app_dir\<rparr>))"

text \<open>
  \<^verbatim>\<open>maya_standalone\<close> is a generator under \<^verbatim>\<open>@contextmanager\<close>. Entering the
  \<^verbatim>\<open>with\<close> statement runs the generator up to its \<^verbatim>\<open>yield\<close>. Leaving it normally
  resumes the generator after the \<^verbatim>\<open>yield\<close>; leaving it by an exception throws that
  exception into the generator at the \<^verbatim>\<open>yield\<close>, which stands in no \<^verbatim>\<open>try\<close> block,
  so the exception leaves the generator at once and the \<^verbatim>\<open>with\<close> statement raises it
  again.
\<close>

definition maya_standalone_enter :: "environment \<Rightarrow> unit action" where
  "maya_standalone_enter h = initialize_maya h"

definition maya_standalone_exit :: "environment \<Rightarrow> exn option \<Rightarrow> unit action" where
  "maya_standalone_exit h thrown =
     (case thrown of None \<Rightarrow> uninitialize_maya h | Some e \<Rightarrow> raise e)"

text \<open>\<^verbatim>\<open>with maya_standalone(): body\<close>\<close>

definition with_maya_standalone :: "environment \<Rightarrow> unit action \<Rightarrow> unit action" where
  "with_maya_standalone h body =
     seq (maya_standalone_enter h)
       (\<lambda>u s. case body s of
                 (Inr v, s') \<Rightarrow> maya_standalone_exit h None s'
               | (Inl e, s') \<Rightarrow> maya_standalone_exit h (Some e) s')"

subsection \<open>Version query\<close>

text \<open>
  \<^verbatim>\<open>maya_version\<close>: \<^verbatim>\<open>import maya.cmds\<close> raises where the host is absent; the host is
  asked only while the global is \<^verbatim>\<open>None\<close>.
\<close>

definition maya_version :: "environment \<Rightarrow> string action" where
  "maya_version h s =
     (if \<not> has_maya h then (Inl ModuleNotFoundError, s)
      else
        (case maya_version_global s of
           None \<Rightarrow>
             (let v = about_majorVersion h (about_count s);
                  s1 = call_host About_majorVersion s
              in (Inr v, s1\<lparr>maya_version_global := Some v\<rparr>))
         | Some v \<Rightarrow> (Inr v, s)))"


subsection \<open>Cache invalidation\<close>

definition cache_dir :: "world \<Rightarrow> path" where
  "cache_dir s = cwd s @ [''.cache'']"

text \<open>The last three statements of \<^verbatim>\<open>remove_outdated_cache\<close>, where both warning branches meet.\<close>

definition remove_and_recreate :: "path \<Rightarrow> path \<Rightarrow> string \<Rightarrow> unit action" where
  "remove_and_recreate cache maya_version_file version =
     seq (on_fs (\<lambda>f. rmtree f cache))
       (\<lambda>u. seq (on_fs (\<lambda>f. mkdir_parents_exist_ok f cache))
          (\<lambda>u. on_fs (\<lambda>f. write_text f maya_version_file version)))"

definition remove_outdated_cache :: "environment \<Rightarrow> unit action" where
  "remove_outdated_cache h =
     seq (maya_version h)
       (\<lambda>version s.
          let cache = cache_dir s
          in if \<not> path_exists (fs s) cache then (Inr (), s)
             else
               let maya_version_file = cache @ [''.maya_version'']
               in if \<not> path_exists (fs s) maya_version_file
                  then
                    (case read_text (fs s) maya_version_file of
                       Inl e \<Rightarrow> (Inl e, s)
                     | Inr t \<Rightarrow>
                         let cache_version = strip t
                         in if cache_version = version then (Inr (), s)
                            else remove_and_recreate cache maya_version_file version
                                   (logger Warning
                                      ''Running against Maya %s, but cache was generated using Maya %s; removing existing cache''
                                      [Str version, Str cache_version] s))
                  else remove_and_recreate cache maya_version_file version
                         (logger Warning
                            ''Cache from unknown Maya version found; removing existing cache''
                            [] s))"

subsection \<open>Function timing\<close>





subsection \<open>A process calling the procedures\<close>






section \<open>Example environments and states\<close>

text \<open>
  A host that is present and answers every call, one whose shutdown fails, and a process
  without the host. The present host answers \<open>2023\<close> to its first version query and
  \<open>2024\<close> to any later one, so that a second query would show.
\<close>

definition maya_2023 :: environment where
  "maya_2023 =
     \<lparr>has_maya = True, qapplication_ok = True, standalone_initialize_ok = True,
      standalone_uninitialize_ok = True, loadPlugin_ok = (\<lambda>p. True),
      about_majorVersion = (\<lambda>k. if k = 0 then ''2023'' else ''2024''),
      maya_handlers = [''maya''], perf_counter = (\<lambda>k. 10 * int k)\<rparr>"

definition maya_failing_shutdown :: environment where
  "maya_failing_shutdown = maya_2023\<lparr>standalone_uninitialize_ok := False\<rparr>"

definition no_maya :: environment where
  "no_maya = maya_2023\<lparr>has_maya := False\<rparr>"

text \<open>
  A project directory \<^verbatim>\<open>/proj\<close> with a cache holding one generated file, and the host's
  temporary application directory with one file in it. The argument is what stands at
  \<^verbatim>\<open>/proj/.cache/.maya_version\<close>.
\<close>

definition project_fs :: "node option \<Rightarrow> filesystem" where
  "project_fs marker =
     ([[] \<mapsto> Dir,
       [''proj''] \<mapsto> Dir,
       [''proj'', ''.cache''] \<mapsto> Dir,
       [''proj'', ''.cache'', ''stubs.json''] \<mapsto> File ''{}'',
       [''proj'', ''temp''] \<mapsto> Dir,
       [''proj'', ''temp'', ''maya_app_dir''] \<mapsto> Dir,
       [''proj'', ''temp'', ''maya_app_dir'', ''prefs''] \<mapsto> File ''x''])
     ([''proj'', ''.cache'', ''.maya_version''] := marker)"

text \<open>The same project before anything was generated: no cache, no temporary directory.\<close>

definition bare_fs :: filesystem where
  "bare_fs = [[] \<mapsto> Dir, [''proj''] \<mapsto> Dir]"

text \<open>A process that has just started in \<^verbatim>\<open>/proj\<close>.\<close>

definition started_in :: "filesystem \<Rightarrow> world" where
  "started_in f =
     \<lparr>cwd = [''proj''], fs = f, maya_version_global = None, logged = [],
      root_handlers = [], host_calls = [], clock_reads = 0\<rparr>"



section \<open>Paths and the filesystem operations\<close>

lemma ancestors_Nil: "ancestors [] = []"
  by (simp add: ancestors_def)

lemma ancestors_snoc: "ancestors (p @ [x]) = ancestors p @ [p]"
proof -
  have "butlast (prefixes p) @ [last (prefixes p)] = prefixes p"
    by (rule append_butlast_last_id) simp
  then show ?thesis
    by (simp add: ancestors_def)
qed

lemma strict_prefix_snoc_iff: "strict_prefix q (p @ [x]) \<longleftrightarrow> prefix q p"
proof
  assume "strict_prefix q (p @ [x])"
  then show "prefix q p"
    by (auto simp: strict_prefix_def)
next
  assume "prefix q p"
  then have "length q \<le> length p"
    by (rule prefix_length_le)
  then have "q \<noteq> p @ [x]"
    by auto
  with \<open>prefix q p\<close> show "strict_prefix q (p @ [x])"
    by (simp add: strict_prefix_def)
qed

lemma prefix_iff_strict: "prefix q p \<longleftrightarrow> strict_prefix q p \<or> q = p"
  by (rule prefix_order.order_iff_strict)

lemma set_ancestors: "set (ancestors p) = {q. strict_prefix q p}"
proof (induction p rule: rev_induct)
  case Nil
  then show ?case by (simp add: ancestors_Nil)
next
  case (snoc x p)
  have "set (ancestors (p @ [x])) = insert p {q. strict_prefix q p}"
    by (simp add: ancestors_snoc snoc.IH)
  also have "\<dots> = {q. prefix q p}"
    using prefix_iff_strict[of _ p] by blast
  finally show ?case
    by (simp only: strict_prefix_snoc_iff)
qed

lemma walk_None_iff: "walk f p = None \<longleftrightarrow> (\<forall>q. strict_prefix q p \<longrightarrow> f q = Some Dir)"
proof -
  have "walk f p = None \<longleftrightarrow> find (\<lambda>q. f q \<noteq> Some Dir) (ancestors p) = None"
    by (simp add: walk_def split: option.splits)
  also have "\<dots> \<longleftrightarrow> (\<forall>q. q \<in> set (ancestors p) \<longrightarrow> f q = Some Dir)"
    by (simp add: find_None_iff)
  finally show ?thesis
    by (simp add: set_ancestors)
qed

lemma stat_Inr_iff: "stat f p = Inr n \<longleftrightarrow> walk f p = None \<and> f p = Some n"
  by (cases "walk f p"; cases "f p") (simp_all add: stat_def)

lemma is_dir_iff: "is_dir f p \<longleftrightarrow> (\<forall>q. prefix q p \<longrightarrow> f q = Some Dir)"
proof -
  have "(\<forall>q. prefix q p \<longrightarrow> f q = Some Dir) \<longleftrightarrow>
        (\<forall>q. strict_prefix q p \<longrightarrow> f q = Some Dir) \<and> f p = Some Dir"
    using prefix_iff_strict[of _ p] by blast
  then show ?thesis
    by (simp add: is_dir_def stat_Inr_iff walk_None_iff)
qed

lemma path_exists_iff: "path_exists f p \<longleftrightarrow> walk f p = None \<and> f p \<noteq> None"
  by (cases "walk f p"; cases "f p") (simp_all add: path_exists_def stat_def)

lemma walk_child: "is_dir f p \<Longrightarrow> walk f (p @ [x]) = None"
  by (simp add: is_dir_iff walk_None_iff strict_prefix_snoc_iff)

lemma read_text_missing:
  assumes "is_dir f p" "\<not> path_exists f (p @ [x])"
  shows "read_text f (p @ [x]) = Inl FileNotFoundError"
  using assms walk_child[OF assms(1), of x]
  by (simp add: read_text_def path_exists_iff stat_def)

lemma rmtree_dir: "is_dir f c \<Longrightarrow> rmtree f c = Inr (\<lambda>q. if prefix c q then None else f q)"
  by (simp add: rmtree_def is_dir_def)

lemma mkdir_after_rmtree:
  assumes "is_dir f c"
  shows "mkdir_parents_exist_ok (\<lambda>q. if prefix c q then None else f q) c
           = Inr (\<lambda>q. if q = c then Some Dir else if prefix c q then None else f q)"
proof -
  let ?g = "\<lambda>q. if prefix c q then None else f q"
  have anc: "f q = Some Dir" if "prefix q c" for q
    using assms that by (simp add: is_dir_iff)
  have nofile: "\<not> is_file (?g q)" if "prefix q c" for q
  proof (cases "prefix c q")
    case True
    then show ?thesis by simp
  next
    case False
    then show ?thesis using anc[OF that] by simp
  qed
  then have "find (\<lambda>q. is_file (?g q)) (prefixes c) = None"
    by (auto simp: find_None_iff in_set_prefixes)
  moreover have "(\<lambda>q. if prefix q c \<and> ?g q = None then Some Dir else ?g q)
               = (\<lambda>q. if q = c then Some Dir else if prefix c q then None else f q)"
  proof
    fix q
    show "(if prefix q c \<and> ?g q = None then Some Dir else ?g q)
        = (if q = c then Some Dir else if prefix c q then None else f q)"
      using anc[of q] by (auto dest: prefix_order.antisym)
  qed
  ultimately show ?thesis
    by (simp add: mkdir_parents_exist_ok_def)
qed

lemma write_text_fresh:
  assumes "is_dir f c"
  shows "write_text (\<lambda>q. if q = c then Some Dir else if prefix c q then None else f q) (c @ [m]) v
           = Inr (\<lambda>q. if q = c @ [m] then Some (File v) else if q = c then Some Dir
                       else if prefix c q then None else f q)"
proof -
  let ?g = "\<lambda>q. if q = c then Some Dir else if prefix c q then None else f q"
  have "?g q = Some Dir" if "prefix q c" for q
    using assms that by (auto simp: is_dir_iff dest: prefix_order.antisym)
  then have "is_dir ?g c"
    unfolding is_dir_iff by blast
  then have "walk ?g (c @ [m]) = None"
    by (rule walk_child)
  moreover have "?g (c @ [m]) = None"
    by simp
  ultimately show ?thesis
    by (auto simp: write_text_def fun_upd_def)
qed

lemma remove_and_recreate_dir:
  assumes "is_dir (fs s) c"
  shows "remove_and_recreate c (c @ [m]) v s =
           (Inr (), s\<lparr>fs := (\<lambda>q. if q = c @ [m] then Some (File v) else if q = c then Some Dir
                                  else if prefix c q then None else fs s q)\<rparr>)"
  by (simp add: remove_and_recreate_def seq_def on_fs_def rmtree_dir[OF assms]
      mkdir_after_rmtree[OF assms] write_text_fresh[OF assms])

lemma read_text_fresh_marker:
  assumes "is_dir f c"
  shows "read_text (\<lambda>q. if q = c @ [m] then Some (File v) else if q = c then Some Dir
                         else if prefix c q then None else f q) (c @ [m]) = Inr v"
proof -
  let ?g = "\<lambda>q. if q = c @ [m] then Some (File v) else if q = c then Some Dir
                 else if prefix c q then None else f q"
  have "?g q = Some Dir" if "prefix q c" for q
  proof -
    have "f q = Some Dir"
      using assms that by (simp add: is_dir_iff)
    moreover have "q \<noteq> c @ [m]"
      using prefix_length_le[OF that] by auto
    moreover have "q = c \<or> \<not> prefix c q"
      using that by (auto dest: prefix_order.antisym)
    ultimately show ?thesis
      by auto
  qed
  then have "is_dir ?g c"
    unfolding is_dir_iff by blast
  then have "walk ?g (c @ [m]) = None"
    by (rule walk_child)
  then show ?thesis
    by (simp add: read_text_def stat_def)
qed

lemma maya_version_frame:
  "fs (snd (maya_version h s)) = fs s \<and> cwd (snd (maya_version h s)) = cwd s
   \<and> logged (snd (maya_version h s)) = logged s"
  by (simp add: maya_version_def call_host_def Let_def split: option.splits)

lemma maya_version_absent: "\<not> has_maya h \<Longrightarrow> maya_version h s = (Inl ModuleNotFoundError, s)"
  by (simp add: maya_version_def)

lemma maya_version_present: "has_maya h \<Longrightarrow> \<exists>v. fst (maya_version h s) = Inr v"
  by (simp add: maya_version_def Let_def split: option.splits)

lemma read_text_exists: "read_text f p = Inr c \<Longrightarrow> path_exists f p"
  by (simp add: read_text_def path_exists_def split: sum.splits)

lemma rmtree_ignore_errors_eq:
  "rmtree_ignore_errors f p = (\<lambda>q. if is_dir f p \<and> prefix p q then None else f q)"
proof (cases "stat f p")
  case (Inl e)
  then show ?thesis
    by (simp add: rmtree_ignore_errors_def rmtree_def is_dir_def)
next
  case (Inr n)
  then show ?thesis
    by (cases n) (simp_all add: rmtree_ignore_errors_def rmtree_def is_dir_def)
qed

section \<open>Host runtime lifecycle\<close>

text \<open>
  C8. Where the host runtime is absent (\<^verbatim>\<open>import maya\<close> failed, so \<^verbatim>\<open>_has_maya\<close> is
  false), \<^verbatim>\<open>initialize_maya()\<close> and \<^verbatim>\<open>uninitialize_maya()\<close> return normally and leave
  the whole state as it was: nothing is logged, the host is not called, the filesystem is
  not touched.
\<close>

theorem lifecycle_noop_without_host:
  assumes "\<not> has_maya h"
  shows "initialize_maya h s = (Inr (), s) \<and> uninitialize_maya h s = (Inr (), s)"
  using assms by (simp add: initialize_maya_def uninitialize_maya_def)

theorem lifecycle_noop_without_host_witness:
  "\<not> has_maya no_maya \<and>
   initialize_maya no_maya (started_in bare_fs) = (Inr (), started_in bare_fs) \<and>
   uninitialize_maya no_maya (started_in bare_fs) = (Inr (), started_in bare_fs)"
proof -
  have h: "\<not> has_maya no_maya"
    by (simp add: no_maya_def maya_2023_def)
  from lifecycle_noop_without_host[OF h, of "started_in bare_fs"] h show ?thesis
    by simp
qed

lemma uninitialize_maya_fs:
  assumes "has_maya h"
  shows "fs (snd (uninitialize_maya h s)) =
           rmtree_ignore_errors (fs s) (cwd s @ [''temp'', ''maya_app_dir''])"
  using assms by (simp add: uninitialize_maya_def Let_def logger_def call_host_def)

text \<open>
  C9. Where the host is present, \<^verbatim>\<open>uninitialize_maya()\<close> never raises, whether the
  host's shutdown succeeds or fails, and afterwards \<^verbatim>\<open>./temp/maya_app_dir\<close> is not a
  directory any more: if it was one, it and everything below it are gone; if it was not
  (it is missing, or a file stands there), the deletion fails, the failure is ignored and
  the filesystem is as before. Nothing outside that directory changes.
\<close>

theorem uninitialize_maya_removes_temp_dir:
  assumes "has_maya h"
  shows "fst (uninitialize_maya h s) = Inr () \<and>
         \<not> is_dir (fs (snd (uninitialize_maya h s))) (cwd s @ [''temp'', ''maya_app_dir'']) \<and>
         fs (snd (uninitialize_maya h s)) =
           (\<lambda>q. if is_dir (fs s) (cwd s @ [''temp'', ''maya_app_dir''])
                    \<and> prefix (cwd s @ [''temp'', ''maya_app_dir'']) q
                 then None else fs s q)"
proof -
  let ?t = "cwd s @ [''temp'', ''maya_app_dir'']"
  let ?f = "\<lambda>q. if is_dir (fs s) ?t \<and> prefix ?t q then None else fs s q"
  have ret: "fst (uninitialize_maya h s) = Inr ()"
    by (simp add: uninitialize_maya_def Let_def)
  have eq: "fs (snd (uninitialize_maya h s)) = ?f"
    by (simp only: uninitialize_maya_fs[OF assms] rmtree_ignore_errors_eq)
  have "\<not> is_dir ?f ?t"
  proof (cases "is_dir (fs s) ?t")
    case True
    then have "?f ?t = None" by simp
    then show ?thesis
      by (simp add: is_dir_def stat_Inr_iff)
  next
    case False
    then show ?thesis by simp
  qed
  with ret eq show ?thesis
    by simp
qed

theorem uninitialize_maya_removes_temp_dir_witness:
  "has_maya maya_failing_shutdown \<and>
   fst (uninitialize_maya maya_failing_shutdown (started_in (project_fs None))) = Inr () \<and>
   \<not> is_dir (fs (snd (uninitialize_maya maya_failing_shutdown (started_in (project_fs None)))))
        [''proj'', ''temp'', ''maya_app_dir''] \<and>
   fs (snd (uninitialize_maya maya_failing_shutdown (started_in (project_fs None))))
        [''proj'', ''temp'', ''maya_app_dir'', ''prefs''] = None"
proof -
  let ?s = "started_in (project_fs None)"
  have h: "has_maya maya_failing_shutdown"
    by (simp add: maya_failing_shutdown_def maya_2023_def)
  have c: "cwd ?s @ [''temp'', ''maya_app_dir''] = [''proj'', ''temp'', ''maya_app_dir'']"
    by (simp add: started_in_def)
  have d: "is_dir (fs ?s) [''proj'', ''temp'', ''maya_app_dir'']"
    by code_simp
  note r = uninitialize_maya_removes_temp_dir[OF h, of ?s, unfolded c]
  have a: "fst (uninitialize_maya maya_failing_shutdown ?s) = Inr ()"
    using r by (rule conjunct1)
  have b: "\<not> is_dir (fs (snd (uninitialize_maya maya_failing_shutdown ?s)))
             [''proj'', ''temp'', ''maya_app_dir'']"
    using r by (rule conjunct1[OF conjunct2])
  have e: "fs (snd (uninitialize_maya maya_failing_shutdown ?s)) =
             (\<lambda>q. if is_dir (fs ?s) [''proj'', ''temp'', ''maya_app_dir'']
                      \<and> prefix [''proj'', ''temp'', ''maya_app_dir''] q
                   then None else fs ?s q)"
    using r by (rule conjunct2[OF conjunct2])
  have p: "fs (snd (uninitialize_maya maya_failing_shutdown ?s))
             [''proj'', ''temp'', ''maya_app_dir'', ''prefs''] = None"
    by (subst e) (simp add: d)
  from h a b p show ?thesis
    by blast
qed

text \<open>
  The \<^verbatim>\<open>with\<close> statement over \<^verbatim>\<open>maya_standalone()\<close>: after a successful start-up, a
  body that returns is followed by \<^verbatim>\<open>uninitialize_maya()\<close>; a body that raises is not.
\<close>

lemma with_maya_standalone_body_returns:
  assumes "initialize_maya h s = (Inr (), s1)" and "body s1 = (Inr (), s2)"
  shows "with_maya_standalone h body s = uninitialize_maya h s2"
  using assms
  by (simp add: with_maya_standalone_def maya_standalone_enter_def maya_standalone_exit_def seq_def)

lemma with_maya_standalone_body_raises:
  assumes "initialize_maya h s = (Inr (), s1)" and "body s1 = (Inl e, s2)"
  shows "with_maya_standalone h body s = (Inl e, s2)"
  using assms
  by (simp add: with_maya_standalone_def maya_standalone_enter_def maya_standalone_exit_def
      seq_def raise_def)

lemma maya_standalone_teardown_on_normal_exit:
  "fst (with_maya_standalone maya_2023 (return ()) (started_in (project_fs None))) = Inr () \<and>
   host_calls (snd (with_maya_standalone maya_2023 (return ()) (started_in (project_fs None))))
     = [SetAttribute_AA_ShareOpenGLContexts, QApplication, Standalone_initialize,
        LoadPlugin ''invertShape.mll'', LoadPlugin ''poseInterpolator.mll'', Standalone_uninitialize] \<and>
   \<not> is_dir (fs (snd (with_maya_standalone maya_2023 (return ()) (started_in (project_fs None)))))
     [''proj'', ''temp'', ''maya_app_dir'']"
  by code_simp

text \<open>
  C4. The specification asks that \<^verbatim>\<open>uninitialize_maya\<close> runs on exit also when the body
  raises.
  The generator has no \<^verbatim>\<open>try\<close>/\<^verbatim>\<open>finally\<close> around its \<^verbatim>\<open>yield\<close>: with the host
  present and a body that raises, the exception leaves the \<^verbatim>\<open>with\<close> statement, the host
  was started (initialize and both plugin loads are among the calls made) but its shutdown
  was never called, and the temporary directory that \<^verbatim>\<open>uninitialize_maya\<close> deletes is
  still there.
\<close>

theorem maya_standalone_skips_teardown_on_exception:
  "fst (with_maya_standalone maya_2023 (raise (Raised ''boom'')) (started_in (project_fs None)))
     = Inl (Raised ''boom'') \<and>
   host_calls (snd (with_maya_standalone maya_2023 (raise (Raised ''boom'')) (started_in (project_fs None))))
     = [SetAttribute_AA_ShareOpenGLContexts, QApplication, Standalone_initialize,
        LoadPlugin ''invertShape.mll'', LoadPlugin ''poseInterpolator.mll''] \<and>
   is_dir (fs (snd (with_maya_standalone maya_2023 (raise (Raised ''boom'')) (started_in (project_fs None)))))
     [''proj'', ''temp'', ''maya_app_dir'']"
  by code_simp

section \<open>Version query\<close>





















section \<open>Cache invalidation\<close>

text \<open>
  Whenever the marker path exists, \<^verbatim>\<open>remove_outdated_cache()\<close> takes the \<^verbatim>\<open>else\<close>
  branch of the test \<^verbatim>\<open>if not maya_version_file.exists()\<close>: it never reads the marker,
  and removes and recreates the cache.
\<close>

lemma remove_outdated_cache_marker_exists:
  assumes v: "fst (maya_version h s) = Inr v"
    and c: "is_dir (fs s) (cache_dir s)"
    and m: "path_exists (fs s) (cache_dir s @ [''.maya_version''])"
  shows "fst (remove_outdated_cache h s) = Inr ()"
    and "fs (snd (remove_outdated_cache h s)) =
           (\<lambda>q. if q = cache_dir s @ [''.maya_version''] then Some (File v)
                 else if q = cache_dir s then Some Dir
                 else if prefix (cache_dir s) q then None
                 else fs s q)"
proof -
  obtain s1 where mv: "maya_version h s = (Inr v, s1)"
    using v by (cases "maya_version h s") simp
  have fr: "fs s1 = fs s" "cwd s1 = cwd s"
    using maya_version_frame[of h s] mv by simp_all
  let ?s2 = "logger Warning ''Cache from unknown Maya version found; removing existing cache'' [] s1"
  have c2: "is_dir (fs ?s2) (cache_dir s)"
    using c fr by (simp add: logger_def)
  have ex: "path_exists (fs s) (cache_dir s)"
    using c by (simp add: is_dir_def path_exists_def)
  have roc: "remove_outdated_cache h s =
          remove_and_recreate (cache_dir s) (cache_dir s @ [''.maya_version'']) v ?s2"
    using ex m fr by (simp add: remove_outdated_cache_def seq_def mv cache_dir_def)
  have f2: "fs ?s2 = fs s"
    using fr by (simp add: logger_def)
  note rr = remove_and_recreate_dir[OF c2, of "''.maya_version''" v, unfolded f2]
  show "fst (remove_outdated_cache h s) = Inr ()"
    by (simp only: roc rr fst_conv)
  show "fs (snd (remove_outdated_cache h s)) =
           (\<lambda>q. if q = cache_dir s @ [''.maya_version''] then Some (File v)
                 else if q = cache_dir s then Some Dir
                 else if prefix (cache_dir s) q then None
                 else fs s q)"
    by (simp add: roc rr)
qed

text \<open>
  C1. The cache directory exists and its marker file holds a version that, stripped,
  differs from the one \<^verbatim>\<open>maya_version()\<close> returns: \<^verbatim>\<open>remove_outdated_cache()\<close> returns
  normally, and afterwards the cache directory is a directory that holds the marker file
  with the current version and nothing else (all that was in it is deleted); everything
  outside the cache directory is as before, and reading the marker gives the current
  version.
\<close>

theorem remove_outdated_cache_replaces_outdated_cache:
  assumes "fst (maya_version h s) = Inr v"
    and "is_dir (fs s) (cache_dir s)"
    and "read_text (fs s) (cache_dir s @ [''.maya_version'']) = Inr c"
    and "strip c \<noteq> v"
  shows "fst (remove_outdated_cache h s) = Inr () \<and>
         fs (snd (remove_outdated_cache h s)) =
           (\<lambda>q. if q = cache_dir s @ [''.maya_version''] then Some (File v)
                 else if q = cache_dir s then Some Dir
                 else if prefix (cache_dir s) q then None
                 else fs s q) \<and>
         read_text (fs (snd (remove_outdated_cache h s))) (cache_dir s @ [''.maya_version'']) = Inr v"
proof -
  note r = remove_outdated_cache_marker_exists[OF assms(1,2) read_text_exists[OF assms(3)]]
  have "read_text (fs (snd (remove_outdated_cache h s))) (cache_dir s @ [''.maya_version'']) = Inr v"
    by (simp only: r(2) read_text_fresh_marker[OF assms(2)])
  with r show ?thesis
    by simp
qed

theorem remove_outdated_cache_replaces_outdated_cache_witness:
  "fst (maya_version maya_2023 (started_in (project_fs (Some (File ''2022''))))) = Inr ''2023'' \<and>
   is_dir (fs (started_in (project_fs (Some (File ''2022'')))))
     (cache_dir (started_in (project_fs (Some (File ''2022''))))) \<and>
   read_text (fs (started_in (project_fs (Some (File ''2022'')))))
     (cache_dir (started_in (project_fs (Some (File ''2022'')))) @ [''.maya_version'']) = Inr ''2022'' \<and>
   strip ''2022'' \<noteq> ''2023'' \<and>
   fst (remove_outdated_cache maya_2023 (started_in (project_fs (Some (File ''2022''))))) = Inr () \<and>
   fs (snd (remove_outdated_cache maya_2023 (started_in (project_fs (Some (File ''2022''))))))
     [''proj'', ''.cache'', ''stubs.json''] = None \<and>
   read_text (fs (snd (remove_outdated_cache maya_2023 (started_in (project_fs (Some (File ''2022'')))))))
     [''proj'', ''.cache'', ''.maya_version''] = Inr ''2023''"
proof -
  let ?s = "started_in (project_fs (Some (File ''2022'')))"
  have h1: "fst (maya_version maya_2023 ?s) = Inr ''2023''"
    by code_simp
  have h2: "is_dir (fs ?s) (cache_dir ?s)"
    by code_simp
  have h3: "read_text (fs ?s) (cache_dir ?s @ [''.maya_version'']) = Inr ''2022''"
    by code_simp
  have h4: "strip ''2022'' \<noteq> ''2023''"
    by code_simp
  have c: "cache_dir ?s = [''proj'', ''.cache'']"
    by (simp add: cache_dir_def started_in_def)
  note r = remove_outdated_cache_replaces_outdated_cache[OF h1 h2 h3 h4, unfolded c]
  have a: "fst (remove_outdated_cache maya_2023 ?s) = Inr ()"
    using r by (rule conjunct1)
  have e: "fs (snd (remove_outdated_cache maya_2023 ?s)) =
             (\<lambda>q. if q = [''proj'', ''.cache''] @ [''.maya_version''] then Some (File ''2023'')
                   else if q = [''proj'', ''.cache''] then Some Dir
                   else if prefix [''proj'', ''.cache''] q then None
                   else fs ?s q)"
    using r by (rule conjunct1[OF conjunct2])
  have b: "read_text (fs (snd (remove_outdated_cache maya_2023 ?s)))
             [''proj'', ''.cache'', ''.maya_version''] = Inr ''2023''"
    using conjunct2[OF conjunct2, OF r] by simp
  have g: "fs (snd (remove_outdated_cache maya_2023 ?s)) [''proj'', ''.cache'', ''stubs.json''] = None"
    by (subst e) simp
  from h1 h2 h3 h4 a g b show ?thesis
    by blast
qed

text \<open>
  C2. The specification asks that a cache whose marker equals the current version is left
  untouched.
  The test on the marker's existence is inverted, so the marker is never compared: with
  the marker \<open>2023\<close>, the host at version \<open>2023\<close> and a generated file in the cache,
  \<^verbatim>\<open>remove_outdated_cache()\<close> returns normally and the generated file is gone.
\<close>

theorem remove_outdated_cache_wipes_current_cache:
  "fst (maya_version maya_2023 (started_in (project_fs (Some (File ''2023''))))) = Inr ''2023'' \<and>
   read_text (project_fs (Some (File ''2023''))) [''proj'', ''.cache'', ''.maya_version''] = Inr ''2023'' \<and>
   strip ''2023'' = ''2023'' \<and>
   project_fs (Some (File ''2023'')) [''proj'', ''.cache'', ''stubs.json''] = Some (File ''{}'') \<and>
   fst (remove_outdated_cache maya_2023 (started_in (project_fs (Some (File ''2023''))))) = Inr () \<and>
   fs (snd (remove_outdated_cache maya_2023 (started_in (project_fs (Some (File ''2023''))))))
     [''proj'', ''.cache'', ''stubs.json''] = None"
  by code_simp

text \<open>
  C3. The specification asks that a cache without a marker file is wiped and given a fresh
  marker.
  With the cache directory present and no marker in it, the inverted test sends the code
  to \<^verbatim>\<open>read_text()\<close> on the missing file: the call ends in \<^verbatim>\<open>FileNotFoundError\<close>, no
  marker is written and the generated file in the cache is still there.
\<close>

theorem remove_outdated_cache_keeps_unmarked_cache:
  "is_dir (project_fs None) [''proj'', ''.cache''] \<and>
   \<not> path_exists (project_fs None) [''proj'', ''.cache'', ''.maya_version''] \<and>
   fst (remove_outdated_cache maya_2023 (started_in (project_fs None))) = Inl FileNotFoundError \<and>
   fs (snd (remove_outdated_cache maya_2023 (started_in (project_fs None))))
     [''proj'', ''.cache'', ''.maya_version''] = None \<and>
   fs (snd (remove_outdated_cache maya_2023 (started_in (project_fs None))))
     [''proj'', ''.cache'', ''stubs.json''] = Some (File ''{}'')"
  by code_simp

text \<open>
  C7. The cache directory does not exist: \<^verbatim>\<open>remove_outdated_cache()\<close> leaves the
  filesystem as it is, so the directory still does not exist afterwards, and it returns
  normally where the host can be imported. (Where it cannot, the \<^verbatim>\<open>import\<close> inside
  \<^verbatim>\<open>maya_version()\<close> raises before the filesystem is looked at.)
\<close>

theorem remove_outdated_cache_without_cache:
  assumes "\<not> path_exists (fs s) (cache_dir s)"
  shows "fs (snd (remove_outdated_cache h s)) = fs s \<and>
         \<not> path_exists (fs (snd (remove_outdated_cache h s))) (cache_dir s) \<and>
         fst (remove_outdated_cache h s) = (if has_maya h then Inr () else Inl ModuleNotFoundError)"
proof (cases "has_maya h")
  case False
  then show ?thesis
    using assms by (simp add: remove_outdated_cache_def seq_def maya_version_absent)
next
  case True
  then obtain v where "fst (maya_version h s) = Inr v"
    using maya_version_present by blast
  then obtain s1 where mv: "maya_version h s = (Inr v, s1)"
    by (cases "maya_version h s") simp
  have fr: "fs s1 = fs s" "cwd s1 = cwd s"
    using maya_version_frame[of h s] mv by simp_all
  have "remove_outdated_cache h s = (Inr (), s1)"
    using assms fr by (simp add: remove_outdated_cache_def seq_def mv cache_dir_def)
  then show ?thesis
    using assms fr True by simp
qed

theorem remove_outdated_cache_without_cache_witness:
  "\<not> path_exists (fs (started_in bare_fs)) (cache_dir (started_in bare_fs)) \<and>
   fs (snd (remove_outdated_cache maya_2023 (started_in bare_fs))) = fs (started_in bare_fs) \<and>
   \<not> path_exists (fs (snd (remove_outdated_cache maya_2023 (started_in bare_fs))))
        (cache_dir (started_in bare_fs)) \<and>
   fst (remove_outdated_cache maya_2023 (started_in bare_fs)) = Inr ()"
proof -
  have h: "\<not> path_exists (fs (started_in bare_fs)) (cache_dir (started_in bare_fs))"
    by code_simp
  have m: "has_maya maya_2023"
    by (simp add: maya_2023_def)
  from remove_outdated_cache_without_cache[OF h, of maya_2023] h m show ?thesis
    by simp
qed

text \<open>
  C10. The host is present, the cache directory exists and the marker file is absent:
  \<^verbatim>\<open>remove_outdated_cache()\<close> ends in \<^verbatim>\<open>FileNotFoundError\<close>, raised by reading the
  missing marker; the filesystem is unchanged (the cache is not wiped, no marker is
  written) and nothing is logged.
\<close>

theorem remove_outdated_cache_missing_marker_raises:
  assumes "has_maya h"
    and "is_dir (fs s) (cache_dir s)"
    and "\<not> path_exists (fs s) (cache_dir s @ [''.maya_version''])"
  shows "fst (remove_outdated_cache h s) = Inl FileNotFoundError \<and>
         fs (snd (remove_outdated_cache h s)) = fs s \<and>
         logged (snd (remove_outdated_cache h s)) = logged s"
proof -
  obtain v where "fst (maya_version h s) = Inr v"
    using maya_version_present[OF assms(1)] by blast
  then obtain s1 where mv: "maya_version h s = (Inr v, s1)"
    by (cases "maya_version h s") simp
  have fr: "fs s1 = fs s" "cwd s1 = cwd s" "logged s1 = logged s"
    using maya_version_frame[of h s] mv by simp_all
  have ex: "path_exists (fs s) (cache_dir s)"
    using assms(2) by (simp add: is_dir_def path_exists_def)
  have "remove_outdated_cache h s = (Inl FileNotFoundError, s1)"
    using ex assms(3) fr read_text_missing[OF assms(2,3)]
    by (simp add: remove_outdated_cache_def seq_def mv cache_dir_def)
  then show ?thesis
    using fr by simp
qed

theorem remove_outdated_cache_missing_marker_raises_witness:
  "has_maya maya_2023 \<and>
   is_dir (fs (started_in (project_fs None))) (cache_dir (started_in (project_fs None))) \<and>
   \<not> path_exists (fs (started_in (project_fs None)))
        (cache_dir (started_in (project_fs None)) @ [''.maya_version'']) \<and>
   fst (remove_outdated_cache maya_2023 (started_in (project_fs None))) = Inl FileNotFoundError \<and>
   fs (snd (remove_outdated_cache maya_2023 (started_in (project_fs None))))
     = fs (started_in (project_fs None)) \<and>
   logged (snd (remove_outdated_cache maya_2023 (started_in (project_fs None))))
     = logged (started_in (project_fs None))"
proof -
  let ?s = "started_in (project_fs None)"
  have h1: "has_maya maya_2023"
    by (simp add: maya_2023_def)
  have h2: "is_dir (fs ?s) (cache_dir ?s)"
    by code_simp
  have h3: "\<not> path_exists (fs ?s) (cache_dir ?s @ [''.maya_version''])"
    by code_simp
  from remove_outdated_cache_missing_marker_raises[OF h1 h2 h3] h1 h2 h3 show ?thesis
    by simp
qed

section \<open>Function timing\<close>



end
